theory Spec2Isabelle
  imports Main "HOL-Library.AList"
begin

section \<open>Values, the file system and the recorded effects\<close>

text \<open>
  The service of \<^verbatim>\<open>main.go\<close> is a set of HTTP handlers that build or load a
  declarative manifest, write it to a file and call external programs. Every handler is
  embedded as a function from the world before the call to the reply and the world after it.

  A Go value of type \<^verbatim>\<open>interface{}\<close>, as the handlers build it and as the YAML and JSON
  libraries return it, is a \<open>val\<close>. A nested mapping is an association list; looking a key
  up reads its first binding and assigning a key replaces that binding in place, as the
  one binding of a Go map is read and replaced.
\<close>

datatype val =
    VNil
  | VBool bool
  | VInt int
  | VStr string
  | VSeq "val list"
  | VMap "(val \<times> val) list"

type_synonym path = string
type_synonym bytes = string

text \<open>
  Every call that leaves the process is recorded, in order: the file-system calls of
  package \<^verbatim>\<open>os\<close>/\<^verbatim>\<open>ioutil\<close> and the external commands started with
  \<^verbatim>\<open>exec.Command(...).Run()\<close> (with their argument vector).
\<close>

datatype event =
    Stat path
  | ReadFile path
  | WriteFile path bytes
  | Remove path
  | Run "string list"

record world =
  files :: "path \<rightharpoonup> bytes"
  trace :: "event list"

record cmd_result =
  run_err :: "string option"
  out_stdout :: bytes
  out_stderr :: bytes

text \<open>
  What lies outside \<^verbatim>\<open>main.go\<close> is a parameter of the model: the YAML and JSON
  libraries, the outcome of an external command, whether a write or a read of a path fails,
  the process id, the scratch directory and \<^verbatim>\<open>filepath.Join\<close>. Nothing is assumed
  about them. \<open>yaml_Unmarshal\<close> and \<open>json_Unmarshal\<close> stand for unmarshalling into a
  \<^verbatim>\<open>map[string]interface{}\<close>: the result is the library's error or the map, which is
  empty when the library leaves the map nil (as for the document \<^verbatim>\<open>null\<close>). An external
  command is recorded and answers through \<open>cmd_Run\<close>; it does not change the files of the
  service. A write that fails leaves the files as they were, and \<^verbatim>\<open>os.Remove\<close> removes
  the file. \<open>stat_err\<close> is the error of \<^verbatim>\<open>os.Stat\<close> on a path when that call fails
  for a reason other than the absence of the file (a name that is too long, a directory that
  may not be searched, a path component that is not a directory); \<^verbatim>\<open>os.IsNotExist\<close> is
  false of such an error. \<open>read_err\<close> is the like error of \<^verbatim>\<open>ioutil.ReadFile\<close>.
\<close>

record env =
  yaml_Marshal :: "val \<Rightarrow> string + bytes"
  yaml_Unmarshal :: "bytes \<Rightarrow> string + (string \<times> val) list"
  json_Unmarshal :: "bytes \<Rightarrow> string + (string \<times> val) list"
  write_err :: "path \<Rightarrow> string option"
  stat_err :: "path \<Rightarrow> string option"
  read_err :: "path \<Rightarrow> string option"
  cmd_Run :: "string list \<Rightarrow> world \<Rightarrow> cmd_result"
  os_Getpid :: nat
  os_TempDir :: string
  filepath_Join :: "string \<Rightarrow> string \<Rightarrow> string"

subsection \<open>Replies\<close>

text \<open>
  \<^verbatim>\<open>http.Error(w, msg, code)\<close> answers with the status \<open>code\<close> and the plain text
  \<open>msg\<close> followed by a newline. \<^verbatim>\<open>json.NewEncoder(w).Encode(m)\<close> answers with status
  200 and the JSON object \<open>m\<close>. A handler that panics writes no reply.
\<close>

datatype payload = Text string | Json "(string \<times> string) list"

datatype reply = Reply nat payload | Panic string

definition http_Error :: "string \<Rightarrow> nat \<Rightarrow> reply" where
  "http_Error msg code = Reply code (Text (msg @ [CHR 0x0A]))"

definition Encode :: "(string \<times> string) list \<Rightarrow> reply" where
  "Encode m = Reply 200 (Json m)"

abbreviation StatusBadRequest :: nat where "StatusBadRequest \<equiv> 400"
abbreviation StatusNotFound :: nat where "StatusNotFound \<equiv> 404"
abbreviation StatusConflict :: nat where "StatusConflict \<equiv> 409"
abbreviation StatusInternalServerError :: nat where "StatusInternalServerError \<equiv> 500"

subsection \<open>Formatting\<close>

definition digit_char :: "nat \<Rightarrow> char" where
  "digit_char d = ''0123456789abcdef'' ! (d mod 16)"

fun fmt_dec :: "nat \<Rightarrow> string" where
  "fmt_dec n = (if n < 10 then [digit_char n] else fmt_dec (n div 10) @ [digit_char (n mod 10)])"

fun fmt_hex :: "nat \<Rightarrow> string" where
  "fmt_hex n = (if n < 16 then [digit_char n] else fmt_hex (n div 16) @ [digit_char (n mod 16)])"

text \<open>The verb \<^verbatim>\<open>%d\<close> on a Go \<^verbatim>\<open>int\<close>.\<close>

definition fmt_d :: "int \<Rightarrow> string" where
  "fmt_d i = (if i < 0 then CHR ''-'' # fmt_dec (nat (- i)) else fmt_dec (nat i))"

subsection \<open>File-system calls and external commands\<close>

text \<open>
  \<^verbatim>\<open>_, err := os.Stat(p); os.IsNotExist(err)\<close>: true when the call fails because the file
  is absent, false when it succeeds and when it fails for another reason.
\<close>

definition os_Stat_IsNotExist :: "env \<Rightarrow> path \<Rightarrow> world \<Rightarrow> bool \<times> world" where
  "os_Stat_IsNotExist E p w =
     (case stat_err E p of
        Some e \<Rightarrow> (False, w\<lparr>trace := trace w @ [Stat p]\<rparr>)
      | None \<Rightarrow> (files w p = None, w\<lparr>trace := trace w @ [Stat p]\<rparr>))"

definition ioutil_ReadFile :: "env \<Rightarrow> path \<Rightarrow> world \<Rightarrow> (string + bytes) \<times> world" where
  "ioutil_ReadFile E p w =
     (let w1 = w\<lparr>trace := trace w @ [ReadFile p]\<rparr> in
      case read_err E p of
        Some e \<Rightarrow> (Inl e, w1)
      | None \<Rightarrow>
          (case files w p of
             None \<Rightarrow> (Inl (''open '' @ p @ '': no such file or directory''), w1)
           | Some b \<Rightarrow> (Inr b, w1)))"

definition ioutil_WriteFile :: "env \<Rightarrow> path \<Rightarrow> bytes \<Rightarrow> world \<Rightarrow> string option \<times> world" where
  "ioutil_WriteFile E p b w =
     (let w1 = w\<lparr>trace := trace w @ [WriteFile p b]\<rparr> in
      case write_err E p of
        Some e \<Rightarrow> (Some e, w1)
      | None \<Rightarrow> (None, w1\<lparr>files := (files w1)(p \<mapsto> b)\<rparr>))"

definition os_Remove :: "path \<Rightarrow> world \<Rightarrow> world" where
  "os_Remove p w = w\<lparr>files := (files w)(p := None), trace := trace w @ [Remove p]\<rparr>"

definition exec_Run :: "env \<Rightarrow> string list \<Rightarrow> world \<Rightarrow> cmd_result \<times> world" where
  "exec_Run E argv w = (cmd_Run E argv w, w\<lparr>trace := trace w @ [Run argv]\<rparr>)"

section \<open>applyYAML\<close>

definition applyYAML :: "env \<Rightarrow> val \<Rightarrow> path \<Rightarrow> world \<Rightarrow> string option \<times> world" where
  "applyYAML E yamlContent filename w =
     (case yaml_Marshal E yamlContent of
        Inl err \<Rightarrow> (Some (''failed to marshal YAML: '' @ err), w)
      | Inr data \<Rightarrow>
          (case ioutil_WriteFile E filename data w of
             (Some err, w1) \<Rightarrow> (Some (''failed to write YAML to file: '' @ err), w1)
           | (None, w1) \<Rightarrow>
               (case exec_Run E [''kubectl'', ''apply'', ''-f'', filename] w1 of
                  (res, w2) \<Rightarrow>
                    (case run_err res of
                       Some err \<Rightarrow> (Some (''failed to execute kubectl apply: '' @ err), w2)
                     | None \<Rightarrow> (None, w2)))))"

text \<open>A string-keyed Go map as a \<open>val\<close>.\<close>

definition str_map :: "(string \<times> val) list \<Rightarrow> val" where
  "str_map m = VMap (map (\<lambda>(k, v). (VStr k, v)) m)"

definition str_str_map :: "(string \<times> string) list \<Rightarrow> val" where
  "str_str_map m = VMap (map (\<lambda>(k, v). (VStr k, VStr v)) m)"

section \<open>The handlers\<close>

text \<open>
  A handler receives the route variables of \<^verbatim>\<open>mux.Vars(r)\<close> as arguments and the
  outcome of \<^verbatim>\<open>json.NewDecoder(r.Body).Decode(&data)\<close> as a sum: \<open>Inl err\<close> when
  decoding fails, \<open>Inr data\<close> otherwise, where a field the body does not carry has Go's
  zero value (the empty string, 0, a nil slice, a nil pointer). A nil slice and a nil
  pointer are \<open>None\<close>. A struct with one field is that field.
\<close>

abbreviation sq :: string where "sq \<equiv> [CHR 0x27]"

subsection \<open>registerTeam\<close>




subsection \<open>createVM\<close>

record createVM_data =
  vm_Name :: string
  vm_ImageID :: string
  vm_FlavorID :: string
  vm_NetworkID :: string
  vm_SecurityGroups :: "string list option"

text \<open>\<^verbatim>\<open>len\<close> of a slice: a nil slice has length 0.\<close>

definition len :: "'a list option \<Rightarrow> nat" where
  "len s = (case s of None \<Rightarrow> 0 | Some xs \<Rightarrow> length xs)"

text \<open>Lines 122 to 124: the default security group.\<close>

definition default_SecurityGroups :: "createVM_data \<Rightarrow> createVM_data" where
  "default_SecurityGroups d =
     (if len (vm_SecurityGroups d) = 0 then d\<lparr>vm_SecurityGroups := Some [''default'']\<rparr> else d)"

definition str_slice :: "string list option \<Rightarrow> val" where
  "str_slice s = (case s of None \<Rightarrow> VSeq [] | Some xs \<Rightarrow> VSeq (map VStr xs))"

definition instanceYAML :: "string \<Rightarrow> createVM_data \<Rightarrow> val" where
  "instanceYAML teamID d =
     str_map
       [(''apiVersion'', VStr ''compute.openstack.crossplane.io/v1alpha1''),
        (''kind'', VStr ''InstanceV2''),
        (''metadata'', str_str_map [(''name'', vm_Name d), (''namespace'', teamID)]),
        (''spec'', str_map
           [(''forProvider'', str_map
               [(''configDrive'', VBool True),
                (''flavorId'', VStr (vm_FlavorID d)),
                (''imageId'', VStr (vm_ImageID d)),
                (''name'', VStr (vm_Name d)),
                (''network'', VSeq [str_str_map [(''uuid'', vm_NetworkID d)]]),
                (''securityGroups'', str_slice (vm_SecurityGroups d))]),
            (''providerConfigRef'', str_str_map [(''name'', ''provider-openstack-config'')])])]"

definition vm_yamlPath :: "env \<Rightarrow> string \<Rightarrow> string \<Rightarrow> path" where
  "vm_yamlPath E team name =
     filepath_Join E ''/home/ubuntu/crossplane-api'' (team @ ''-'' @ name @ ''.yaml'')"

definition createVM :: "env \<Rightarrow> string \<Rightarrow> string + createVM_data \<Rightarrow> world \<Rightarrow> reply \<times> world" where
  "createVM E teamID decoded w =
     (case decoded of
        Inl err \<Rightarrow> (http_Error (''Error decoding request: '' @ err) StatusBadRequest, w)
      | Inr d0 \<Rightarrow>
          if vm_Name d0 = [] \<or> vm_ImageID d0 = [] \<or> vm_FlavorID d0 = [] \<or> vm_NetworkID d0 = []
          then (http_Error ''Missing required fields'' StatusBadRequest, w)
          else
            (let d = default_SecurityGroups d0;
                 yamlPath = vm_yamlPath E teamID (vm_Name d) in
             case applyYAML E (instanceYAML teamID d) yamlPath w of
               (Some err, w1) \<Rightarrow>
                 (http_Error (''Failed to provision VM: '' @ err) StatusInternalServerError, w1)
             | (None, w1) \<Rightarrow>
                 (Encode [(''message'',
                           ''VM '' @ sq @ vm_Name d @ sq @ '' provisioned successfully in namespace ''
                             @ sq @ teamID @ sq @ ''.'')],
                  w1)))"

subsection \<open>resizeVM\<close>

text \<open>
  Lines 194 to 198. The type assertion \<^verbatim>\<open>.(map[interface{}]interface{})\<close> holds of a
  mapping and of nothing else; a key that is not bound reads as nil, for which it fails.
  The assignment to \<^verbatim>\<open>forProvider["flavorId"]\<close> writes into the map that
  \<^verbatim>\<open>instance\<close> holds, so the updated map is put back where it was read.
\<close>

definition set_flavorId :: "string \<Rightarrow> (string \<times> val) list \<Rightarrow> (string \<times> val) list" where
  "set_flavorId FlavorID instance =
     (case map_of instance ''spec'' of
        Some (VMap spec) \<Rightarrow>
          (case map_of spec (VStr ''forProvider'') of
             Some (VMap forProvider) \<Rightarrow>
               AList.update ''spec''
                 (VMap (AList.update (VStr ''forProvider'')
                    (VMap (AList.update (VStr ''flavorId'') (VStr FlavorID) forProvider))
                    spec))
                 instance
           | _ \<Rightarrow> instance)
      | _ \<Rightarrow> instance)"

definition resizeVM :: "env \<Rightarrow> string \<Rightarrow> string \<Rightarrow> string + string \<Rightarrow> world \<Rightarrow> reply \<times> world" where
  "resizeVM E teamName vmName decoded w =
     (case decoded of
        Inl err \<Rightarrow> (http_Error (''Error decoding request: '' @ err) StatusBadRequest, w)
      | Inr FlavorID \<Rightarrow>
          if FlavorID = [] then
            (http_Error (''Missing '' @ sq @ ''flavorId'' @ sq @ '' in request'') StatusBadRequest, w)
          else
            (let yamlPath = vm_yamlPath E teamName vmName in
             case os_Stat_IsNotExist E yamlPath w of
               (True, w1) \<Rightarrow> (http_Error (yamlPath @ '' not found'') StatusNotFound, w1)
             | (False, w1) \<Rightarrow>
                 (case ioutil_ReadFile E yamlPath w1 of
                    (Inl err, w2) \<Rightarrow>
                      (http_Error (''Failed to read VM YAML: '' @ err) StatusInternalServerError, w2)
                  | (Inr fileContent, w2) \<Rightarrow>
                      (case yaml_Unmarshal E fileContent of
                         Inl err \<Rightarrow>
                           (http_Error (''Failed to unmarshal VM YAML: '' @ err)
                              StatusInternalServerError, w2)
                       | Inr instance0 \<Rightarrow>
                           (let instance = set_flavorId FlavorID instance0 in
                            case applyYAML E (str_map instance) yamlPath w2 of
                              (Some err, w3) \<Rightarrow>
                                (http_Error (''Failed to update VM flavor: '' @ err)
                                   StatusInternalServerError, w3)
                            | (None, w3) \<Rightarrow>
                                (Encode [(''message'',
                                          ''Flavor for VM '' @ sq @ vmName @ sq
                                            @ '' updated successfully.'')],
                                 w3))))))"

subsection \<open>scaleVM\<close>

definition scale_argv :: "string \<Rightarrow> string \<Rightarrow> int \<Rightarrow> string list" where
  "scale_argv teamID resourceID n =
     [''kubectl'', ''scale'', ''deployment/'' @ resourceID, ''--replicas='' @ fmt_d n, ''-n'', teamID]"

definition scaleVM :: "env \<Rightarrow> string \<Rightarrow> string \<Rightarrow> string + int option \<Rightarrow> world \<Rightarrow> reply \<times> world" where
  "scaleVM E teamID resourceID decoded w =
     (case decoded of
        Inl err \<Rightarrow> (http_Error (''Error decoding request: '' @ err) StatusBadRequest, w)
      | Inr Replicas \<Rightarrow>
          (case Replicas of
             None \<Rightarrow>
               (http_Error (''Missing '' @ sq @ ''replicas'' @ sq @ '' in request'') StatusBadRequest, w)
           | Some n \<Rightarrow>
               (case exec_Run E (scale_argv teamID resourceID n) w of
                  (res, w1) \<Rightarrow>
                    (case run_err res of
                       Some err \<Rightarrow>
                         (http_Error (''Failed to scale VM: '' @ err @ [CHR 0x0A] @ out_stderr res)
                            StatusInternalServerError, w1)
                     | None \<Rightarrow>
                         (Encode [(''message'',
                                   ''Scaled VM '' @ sq @ resourceID @ sq @ '' to '' @ fmt_d n
                                     @ '' replicas.'')],
                          w1)))))"

subsection \<open>attachDisk\<close>

record attachDisk_data =
  att_VolumeID :: string
  att_InstanceID :: string

definition volumeAttachment :: "string \<Rightarrow> string \<Rightarrow> attachDisk_data \<Rightarrow> val" where
  "volumeAttachment teamName attachmentName d =
     str_map
       [(''apiVersion'', VStr ''compute.openstack.crossplane.io/v1alpha1''),
        (''kind'', VStr ''VolumeAttachmentV2''),
        (''metadata'', str_str_map [(''name'', attachmentName), (''namespace'', teamName)]),
        (''spec'', str_map
           [(''instanceId'', VStr (att_InstanceID d)),
            (''volumeId'', VStr (att_VolumeID d)),
            (''providerConfigRef'', str_str_map [(''name'', ''provider-openstack-config'')]),
            (''deletionPolicy'', VStr ''Delete'')])]"

definition attachDisk_yamlPath :: "env \<Rightarrow> string \<Rightarrow> path" where
  "attachDisk_yamlPath E attachmentName =
     filepath_Join E (os_TempDir E) (attachmentName @ ''.yaml'')"

text \<open>
  The slice expression \<^verbatim>\<open>nameSuffix[:8]\<close> of line 263 panics when the string is
  shorter than 8 bytes; the panic leaves the handler before its \<^verbatim>\<open>defer\<close> is
  registered and before anything is written.
\<close>

definition attachDisk ::
  "env \<Rightarrow> string \<Rightarrow> string \<Rightarrow> string + attachDisk_data \<Rightarrow> world \<Rightarrow> reply \<times> world" where
  "attachDisk E teamName vmName decoded w =
     (case decoded of
        Inl err \<Rightarrow> (http_Error (''Error decoding request: '' @ err) StatusBadRequest, w)
      | Inr d \<Rightarrow>
          if att_VolumeID d = [] \<or> att_InstanceID d = [] then
            (http_Error ''Missing volumeId or instanceId'' StatusBadRequest, w)
          else
            (let nameSuffix = fmt_hex (os_Getpid E) in
             if length nameSuffix < 8 then (Panic ''slice bounds out of range'', w)
             else
               (let attachmentName = vmName @ ''-attach-'' @ take 8 nameSuffix;
                    yamlPath = attachDisk_yamlPath E attachmentName in
                case applyYAML E (volumeAttachment teamName attachmentName d) yamlPath w of
                  (Some err, w1) \<Rightarrow>
                    (http_Error (''Failed to attach disk: '' @ err) StatusInternalServerError,
                     os_Remove yamlPath w1)
                | (None, w1) \<Rightarrow>
                    (Encode [(''message'', ''Disk attachment request sent: '' @ attachmentName)],
                     os_Remove yamlPath w1))))"

subsection \<open>createBlockVolume\<close>

record createBlockVolume_data =
  vol_Name :: string
  vol_Size :: int
  vol_Description :: string

definition volumeManifest :: "string \<Rightarrow> createBlockVolume_data \<Rightarrow> val" where
  "volumeManifest teamName d =
     str_map
       [(''apiVersion'', VStr ''blockstorage.openstack.crossplane.io/v1alpha1''),
        (''kind'', VStr ''VolumeV3''),
        (''metadata'', str_str_map [(''name'', vol_Name d), (''namespace'', teamName)]),
        (''spec'', str_map
           [(''forProvider'', str_map
               [(''name'', VStr (vol_Name d)),
                (''size'', VInt (vol_Size d)),
                (''description'', VStr (vol_Description d))]),
            (''providerConfigRef'', str_str_map [(''name'', ''provider-openstack-config'')])])]"

definition createBlockVolume_tmpFile :: "env \<Rightarrow> string \<Rightarrow> path" where
  "createBlockVolume_tmpFile E Name = filepath_Join E (os_TempDir E) (Name @ ''-block.yaml'')"

definition createBlockVolume ::
  "env \<Rightarrow> string \<Rightarrow> string + createBlockVolume_data \<Rightarrow> world \<Rightarrow> reply \<times> world" where
  "createBlockVolume E teamName decoded w =
     (case decoded of
        Inl err \<Rightarrow> (http_Error (''Error decoding request: '' @ err) StatusBadRequest, w)
      | Inr d \<Rightarrow>
          if vol_Name d = [] \<or> vol_Size d = 0 then
            (http_Error ''Missing required fields (name or size)'' StatusBadRequest, w)
          else
            (let tmpFile = createBlockVolume_tmpFile E (vol_Name d) in
             case yaml_Marshal E (volumeManifest teamName d) of
               Inl err \<Rightarrow>
                 (http_Error (''Failed to marshal volume manifest: '' @ err)
                    StatusInternalServerError,
                  os_Remove tmpFile w)
             | Inr fileContent \<Rightarrow>
                 (case ioutil_WriteFile E tmpFile fileContent w of
                    (Some err, w1) \<Rightarrow>
                      (http_Error (''Failed to write volume manifest to file: '' @ err)
                         StatusInternalServerError,
                       os_Remove tmpFile w1)
                  | (None, w1) \<Rightarrow>
                      (case exec_Run E [''kubectl'', ''apply'', ''-f'', tmpFile] w1 of
                         (res, w2) \<Rightarrow>
                           (case run_err res of
                              Some err \<Rightarrow>
                                (http_Error
                                   (''Failed to apply block volume manifest: '' @ err
                                      @ [CHR 0x0A] @ ''Details: '' @ out_stderr res)
                                   StatusInternalServerError,
                                 os_Remove tmpFile w2)
                            | None \<Rightarrow>
                                (Encode
                                   [(''message'',
                                     ''Block volume '' @ sq @ vol_Name d @ sq
                                       @ '' created successfully in namespace '' @ sq @ teamName
                                       @ sq @ ''.''),
                                    (''kubectl_output'', out_stdout res)],
                                 os_Remove tmpFile w2))))))"

subsection \<open>handleVMAction\<close>

definition script :: string where
  "script = ''/home/ubuntu/admin.sh''"

definition statusCmd :: "string \<Rightarrow> string list" where
  "statusCmd vmName =
     [''bash'', ''-c'', ''source '' @ script @ '' && openstack server show '' @ vmName @ '' -f json'']"

text \<open>The \<^verbatim>\<open>switch\<close> of lines 394 to 404; \<open>None\<close> is its default case.\<close>

definition action_cmd :: "string \<Rightarrow> string \<Rightarrow> string \<Rightarrow> string list option" where
  "action_cmd teamName vmName action =
     (if action = ''start'' then
        Some [''bash'', ''-c'', ''source '' @ script @ '' && openstack server start '' @ vmName]
      else if action = ''stop'' then
        Some [''bash'', ''-c'', ''source '' @ script @ '' && openstack server stop '' @ vmName]
      else if action = ''delete'' then
        Some [''bash'', ''-c'',
              ''source '' @ script @ '' && kubectl delete instancev2 '' @ vmName
                @ '' --namespace '' @ teamName]
      else None)"

text \<open>Lines 392 to 418: what the handler does once the resource is found not busy.\<close>

definition run_action :: "env \<Rightarrow> string \<Rightarrow> string \<Rightarrow> string \<Rightarrow> world \<Rightarrow> reply \<times> world" where
  "run_action E teamName vmName action w =
     (case action_cmd teamName vmName action of
        None \<Rightarrow>
          (http_Error (''Unsupported action '' @ sq @ action @ sq @ ''.'') StatusBadRequest, w)
      | Some cmd \<Rightarrow>
          (case exec_Run E cmd w of
             (res, w1) \<Rightarrow>
               (case run_err res of
                  Some err \<Rightarrow>
                    (http_Error
                       (''Failed to execute action '' @ sq @ action @ sq @ '' on VM '' @ sq
                          @ vmName @ sq @ '': '' @ err @ [CHR 0x0A] @ out_stderr res)
                       StatusInternalServerError, w1)
                | None \<Rightarrow>
                    (Encode
                       [(''message'',
                         ''Action '' @ sq @ action @ sq @ '' executed on VM '' @ sq @ vmName
                           @ sq @ ''. Output:'' @ [CHR 0x0A] @ out_stdout res)],
                     w1))))"

definition handleVMAction :: "env \<Rightarrow> string \<Rightarrow> string \<Rightarrow> string \<Rightarrow> world \<Rightarrow> reply \<times> world" where
  "handleVMAction E teamName vmName action w =
     (case exec_Run E (statusCmd vmName) w of
        (st, w1) \<Rightarrow>
          (case run_err st of
             Some err \<Rightarrow>
               (http_Error (''Failed to fetch VM status: '' @ err @ [CHR 0x0A] @ out_stderr st)
                  StatusInternalServerError, w1)
           | None \<Rightarrow>
               (case json_Unmarshal E (out_stdout st) of
                  Inl err \<Rightarrow> (http_Error ''Failed to parse VM status'' StatusInternalServerError, w1)
                | Inr statusData \<Rightarrow>
                    (case map_of statusData ''OS-EXT-STS:task_state'' of
                       Some (VStr taskState) \<Rightarrow>
                         if taskState \<noteq> [] then
                           (http_Error
                              (''VM is currently busy (task_state: '' @ taskState
                                 @ ''). Try again later.'')
                              StatusConflict, w1)
                         else run_action E teamName vmName action w1
                     | _ \<Rightarrow> run_action E teamName vmName action w1))))"

section \<open>Notions used to state the properties\<close>

text \<open>The status code of a reply, when there is one.\<close>

definition status_of :: "reply \<Rightarrow> nat option" where
  "status_of r = (case r of Reply code _ \<Rightarrow> Some code | Panic _ \<Rightarrow> None)"

text \<open>Reading a nested field of a manifest along a path of string keys.\<close>

fun get_in :: "val \<Rightarrow> string list \<Rightarrow> val option" where
  "get_in v [] = Some v"
| "get_in (VMap m) (k # ks) =
     (case map_of m (VStr k) of None \<Rightarrow> None | Some v \<Rightarrow> get_in v ks)"
| "get_in _ (k # ks) = None"

text \<open>
  The nesting a resize expects of a stored manifest: a mapping under \<open>spec\<close> and, in it,
  a mapping under \<open>forProvider\<close>.
\<close>

definition has_forProvider :: "(string \<times> val) list \<Rightarrow> bool" where
  "has_forProvider instance =
     (case map_of instance ''spec'' of
        Some (VMap spec) \<Rightarrow>
          (case map_of spec (VStr ''forProvider'') of Some (VMap _) \<Rightarrow> True | _ \<Rightarrow> False)
      | _ \<Rightarrow> False)"

text \<open>Whether a text contains a word.\<close>

fun mentions :: "string \<Rightarrow> string \<Rightarrow> bool" where
  "mentions [] word = (word = [])"
| "mentions (c # cs) word = (take (length word) (c # cs) = word \<or> mentions cs word)"

text \<open>The events a handler added to the trace.\<close>

definition new_events :: "world \<Rightarrow> world \<Rightarrow> event list" where
  "new_events w w' = drop (length (trace w)) (trace w')"

text \<open>An event that is the run of an external command, not a file-system call.\<close>

definition is_Run :: "event \<Rightarrow> bool" where
  "is_Run e = (case e of Run _ \<Rightarrow> True | _ \<Rightarrow> False)"

text \<open>Whether the command of the requested action is among the commands a handler ran.\<close>

definition action_executed :: "string \<Rightarrow> string \<Rightarrow> string \<Rightarrow> world \<Rightarrow> world \<Rightarrow> bool" where
  "action_executed teamName vmName action w w' =
     (case action_cmd teamName vmName action of
        None \<Rightarrow> False
      | Some cmd \<Rightarrow> Run cmd \<in> set (new_events w w'))"

section \<open>A concrete environment\<close>

text \<open>
  An environment and worlds on which the handlers are run: the status query of \<open>vm1\<close>
  reports the task state \<open>powering-on\<close>, the one of \<open>vm2\<close> fails, the one of \<open>vm3\<close>
  prints text that is not JSON, and every other command succeeds. The file of
  \<open>teamA\<close>/\<open>vm9\<close> holds a document with no \<open>spec\<close>. A path of more than 255 bytes
  can be neither examined nor read: the name is too long.
\<close>

abbreviation dq :: string where "dq \<equiv> [CHR 0x22]"

definition busy_out :: bytes where
  "busy_out = ''{'' @ dq @ ''OS-EXT-STS:task_state'' @ dq @ '': '' @ dq @ ''powering-on'' @ dq @ ''}''"

definition configmap_doc :: "(string \<times> val) list" where
  "configmap_doc =
     [(''apiVersion'', VStr ''v1''),
      (''kind'', VStr ''ConfigMap''),
      (''metadata'', VMap [(VStr ''name'', VStr ''vm9''), (VStr ''namespace'', VStr ''teamA'')])]"

definition configmap_bytes :: bytes where
  "configmap_bytes =
     ''apiVersion: v1'' @ [CHR 0x0A] @ ''kind: ConfigMap'' @ [CHR 0x0A] @ ''metadata:'' @ [CHR 0x0A]
       @ ''  name: vm9'' @ [CHR 0x0A] @ ''  namespace: teamA'' @ [CHR 0x0A]"

definition demo_Run :: "string list \<Rightarrow> world \<Rightarrow> cmd_result" where
  "demo_Run argv w =
     (if argv = statusCmd ''vm1'' then
        \<lparr>run_err = None, out_stdout = busy_out, out_stderr = []\<rparr>
      else if argv = statusCmd ''vm2'' then
        \<lparr>run_err = Some ''exit status 1'', out_stdout = [], out_stderr = ''No server found''\<rparr>
      else if argv = statusCmd ''vm3'' then
        \<lparr>run_err = None, out_stdout = ''<html>'', out_stderr = []\<rparr>
      else \<lparr>run_err = None, out_stdout = [], out_stderr = []\<rparr>)"

definition name_too_long :: "path \<Rightarrow> string option" where
  "name_too_long p = (if 255 < length p then Some ''file name too long'' else None)"

definition long_name :: string where
  "long_name = replicate 300 (CHR ''a'')"

definition demo_env :: env where
  "demo_env =
     \<lparr>yaml_Marshal =
        (\<lambda>v. if v = str_map configmap_doc then Inr configmap_bytes else Inr ''---''),
      yaml_Unmarshal =
        (\<lambda>b. if b = configmap_bytes then Inr configmap_doc else Inl ''yaml: unmarshal errors''),
      json_Unmarshal =
        (\<lambda>b. if b = busy_out then Inr [(''OS-EXT-STS:task_state'', VStr ''powering-on'')]
              else Inl ''invalid character''),
      write_err = (\<lambda>p. None),
      stat_err = name_too_long,
      read_err = name_too_long,
      cmd_Run = demo_Run,
      os_Getpid = 305419896,
      os_TempDir = ''/tmp'',
      filepath_Join = (\<lambda>dir name. dir @ ''/'' @ name)\<rparr>"

definition empty_world :: world where
  "empty_world = \<lparr>files = Map.empty, trace = []\<rparr>"

definition stored_world :: world where
  "stored_world =
     \<lparr>files = [''/home/ubuntu/crossplane-api/teamA-vm9.yaml'' \<mapsto> configmap_bytes], trace = []\<rparr>"

text \<open>Requests and a stored manifest of \<open>teamA\<close>.\<close>

definition vm1_request :: "string list option \<Rightarrow> createVM_data" where
  "vm1_request sgs =
     \<lparr>vm_Name = ''vm1'', vm_ImageID = ''img1'', vm_FlavorID = ''f1'', vm_NetworkID = ''net1'',
      vm_SecurityGroups = sgs\<rparr>"

definition stored_vm1 :: "(string \<times> val) list" where
  "stored_vm1 =
     [(''kind'', VStr ''InstanceV2''),
      (''spec'', VMap [(VStr ''forProvider'',
                        VMap [(VStr ''flavorId'', VStr ''f1''), (VStr ''imageId'', VStr ''img1'')])])]"




section \<open>Properties\<close>

declare fmt_dec.simps [simp del] fmt_hex.simps [simp del]

lemma new_events_append [simp]: "new_events w (w\<lparr>trace := trace w @ evs\<rparr>) = evs"
  by (simp add: new_events_def)

lemma new_events_same [simp]: "new_events w w = []"
  by (simp add: new_events_def)

lemma map_of_str_keys [simp]:
  "map_of (map (\<lambda>(k, v). (VStr k, v)) m) (VStr k) = map_of m k"
  by (induction m) auto

lemma os_Remove_gone [simp]:
  "files (os_Remove p w) p = None" "trace (os_Remove p w) = trace w @ [Remove p]"
  by (simp_all add: os_Remove_def)

lemma fmt_d_0: "fmt_d 0 = ''0''"
  by (simp add: fmt_d_def fmt_dec.simps digit_char_def)

lemma action_cmd_neq_statusCmd:
  "action_cmd teamName vmName action \<noteq> Some (statusCmd vmName)"
  by (simp add: action_cmd_def statusCmd_def script_def)

lemma status_only_not_executed:
  "\<not> action_executed teamName vmName action w (w\<lparr>trace := trace w @ [Run (statusCmd vmName)]\<rparr>)"
  using action_cmd_neq_statusCmd [of teamName vmName action]
  by (auto simp: action_executed_def split: option.splits)

subsection \<open>The busy check of the action route\<close>

text \<open>
  C1. On the route \<^verbatim>\<open>PUT /teams/{team_name}/vm/{vm_name}/{action}\<close>: when the status
  query runs without error, its output parses, and the parsed status carries a non-empty string
  under \<open>OS-EXT-STS:task_state\<close>, the handler answers 409 Conflict with the busy message;
  the status query is the only command it ran, so the command of the action was not
  executed, and no file changed. This holds for every action, and so for start, stop and
  delete.
\<close>

theorem handleVMAction_busy_conflict:
  assumes "run_err (cmd_Run E (statusCmd vmName) w) = None"
    and "json_Unmarshal E (out_stdout (cmd_Run E (statusCmd vmName) w)) = Inr statusData"
    and "map_of statusData ''OS-EXT-STS:task_state'' = Some (VStr taskState)"
    and "taskState \<noteq> []"
  shows "fst (handleVMAction E teamName vmName action w) =
           http_Error (''VM is currently busy (task_state: '' @ taskState @ ''). Try again later.'')
             StatusConflict
         \<and> new_events w (snd (handleVMAction E teamName vmName action w)) = [Run (statusCmd vmName)]
         \<and> files (snd (handleVMAction E teamName vmName action w)) = files w
         \<and> \<not> action_executed teamName vmName action w (snd (handleVMAction E teamName vmName action w))"
proof -
  have "handleVMAction E teamName vmName action w =
          (http_Error (''VM is currently busy (task_state: '' @ taskState @ ''). Try again later.'')
             StatusConflict,
           w\<lparr>trace := trace w @ [Run (statusCmd vmName)]\<rparr>)"
    using assms by (simp add: handleVMAction_def exec_Run_def)
  then show ?thesis
    by (simp add: status_only_not_executed)
qed

text \<open>The scenario of the specification: \<open>start\<close> on \<open>vm1\<close> while it is \<open>powering-on\<close>.\<close>

theorem handleVMAction_busy_conflict_witness:
  "run_err (cmd_Run demo_env (statusCmd ''vm1'') empty_world) = None
   \<and> json_Unmarshal demo_env (out_stdout (cmd_Run demo_env (statusCmd ''vm1'') empty_world))
       = Inr [(''OS-EXT-STS:task_state'', VStr ''powering-on'')]
   \<and> map_of [(''OS-EXT-STS:task_state'', VStr ''powering-on'')] ''OS-EXT-STS:task_state''
       = Some (VStr ''powering-on'')
   \<and> ''powering-on'' \<noteq> []
   \<and> status_of (fst (handleVMAction demo_env ''teamA'' ''vm1'' ''start'' empty_world)) = Some 409
   \<and> new_events empty_world (snd (handleVMAction demo_env ''teamA'' ''vm1'' ''start'' empty_world))
       = [Run (statusCmd ''vm1'')]
   \<and> action_cmd ''teamA'' ''vm1'' ''start''
       = Some [''bash'', ''-c'', ''source /home/ubuntu/admin.sh && openstack server start vm1'']
   \<and> \<not> action_executed ''teamA'' ''vm1'' ''start'' empty_world
         (snd (handleVMAction demo_env ''teamA'' ''vm1'' ''start'' empty_world))"
proof -
  have h1: "run_err (cmd_Run demo_env (statusCmd ''vm1'') empty_world) = None"
    by (simp add: demo_env_def demo_Run_def)
  have h2: "json_Unmarshal demo_env (out_stdout (cmd_Run demo_env (statusCmd ''vm1'') empty_world))
       = Inr [(''OS-EXT-STS:task_state'', VStr ''powering-on'')]"
    by (simp add: demo_env_def demo_Run_def)
  have h3: "map_of [(''OS-EXT-STS:task_state'', VStr ''powering-on'')] ''OS-EXT-STS:task_state''
       = Some (VStr ''powering-on'')"
    by simp
  have h4: "''powering-on'' \<noteq> []" by simp
  have h5: "action_cmd ''teamA'' ''vm1'' ''start''
       = Some [''bash'', ''-c'', ''source /home/ubuntu/admin.sh && openstack server start vm1'']"
    by (simp add: action_cmd_def script_def)
  show ?thesis
    using handleVMAction_busy_conflict [OF h1 h2 h3 h4, of "''teamA''" "''start''"] h1 h2 h5
    by (simp add: status_of_def http_Error_def)
qed

text \<open>
  C6. On the same route: when the status query ends with an error, or its output does not
  parse as JSON, the handler answers 500; the status query is the only command it ran, so
  the failure is not taken for an idle resource and the command of the action was not
  executed.
\<close>

theorem handleVMAction_status_failure:
  assumes "run_err (cmd_Run E (statusCmd vmName) w) \<noteq> None
           \<or> isl (json_Unmarshal E (out_stdout (cmd_Run E (statusCmd vmName) w)))"
  shows "status_of (fst (handleVMAction E teamName vmName action w)) = Some StatusInternalServerError
         \<and> new_events w (snd (handleVMAction E teamName vmName action w)) = [Run (statusCmd vmName)]
         \<and> files (snd (handleVMAction E teamName vmName action w)) = files w
         \<and> \<not> action_executed teamName vmName action w (snd (handleVMAction E teamName vmName action w))"
proof -
  have "snd (handleVMAction E teamName vmName action w)
          = w\<lparr>trace := trace w @ [Run (statusCmd vmName)]\<rparr>
        \<and> status_of (fst (handleVMAction E teamName vmName action w)) = Some 500"
    using assms
    by (auto simp: handleVMAction_def exec_Run_def status_of_def http_Error_def
             split: option.splits sum.splits)
  then show ?thesis
    by (simp add: status_only_not_executed)
qed

text \<open>A query that exits with an error (\<open>vm2\<close>) and one that prints no JSON (\<open>vm3\<close>).\<close>

theorem handleVMAction_status_failure_witness:
  "run_err (cmd_Run demo_env (statusCmd ''vm2'') empty_world) \<noteq> None
   \<and> isl (json_Unmarshal demo_env (out_stdout (cmd_Run demo_env (statusCmd ''vm3'') empty_world)))
   \<and> status_of (fst (handleVMAction demo_env ''teamA'' ''vm2'' ''stop'' empty_world)) = Some 500
   \<and> new_events empty_world (snd (handleVMAction demo_env ''teamA'' ''vm2'' ''stop'' empty_world))
       = [Run (statusCmd ''vm2'')]
   \<and> \<not> action_executed ''teamA'' ''vm2'' ''stop'' empty_world
         (snd (handleVMAction demo_env ''teamA'' ''vm2'' ''stop'' empty_world))
   \<and> status_of (fst (handleVMAction demo_env ''teamA'' ''vm3'' ''delete'' empty_world)) = Some 500
   \<and> new_events empty_world (snd (handleVMAction demo_env ''teamA'' ''vm3'' ''delete'' empty_world))
       = [Run (statusCmd ''vm3'')]
   \<and> \<not> action_executed ''teamA'' ''vm3'' ''delete'' empty_world
         (snd (handleVMAction demo_env ''teamA'' ''vm3'' ''delete'' empty_world))"
proof -
  have h1: "run_err (cmd_Run demo_env (statusCmd ''vm2'') empty_world) \<noteq> None"
    by (simp add: demo_env_def demo_Run_def statusCmd_def)
  have h2: "isl (json_Unmarshal demo_env (out_stdout (cmd_Run demo_env (statusCmd ''vm3'') empty_world)))"
    by (simp add: demo_env_def demo_Run_def statusCmd_def busy_out_def)
  show ?thesis
    using handleVMAction_status_failure [OF disjI1 [OF h1], of "''teamA''" "''stop''"]
          handleVMAction_status_failure [OF disjI2 [OF h2], of "''teamA''" "''delete''"] h1 h2
    by simp
qed

subsection \<open>Resize of a reference with no stored manifest\<close>

text \<open>
  C3, as stated, for every resize request on a reference whose file does not exist. A request
  whose body carries no \<open>flavorId\<close> is answered 400 before the file is looked for. And a
  request for a VM name of 300 bytes, whose file does not exist either, is answered 500: the
  existence check fails because the name is too long, which is not the error that line 177
  tests for, so the handler goes on to read the file.
\<close>

theorem resizeVM_every_request_counterexample:
  "files empty_world (vm_yamlPath demo_env ''teamA'' ''vm1'') = None
   \<and> resizeVM demo_env ''teamA'' ''vm1'' (Inr []) empty_world
       = (Reply 400 (Text (''Missing '' @ sq @ ''flavorId'' @ sq @ '' in request'' @ [CHR 0x0A])),
          empty_world)
   \<and> status_of (fst (resizeVM demo_env ''teamA'' ''vm1'' (Inr []) empty_world)) \<noteq> Some StatusNotFound
   \<and> files empty_world (vm_yamlPath demo_env ''teamA'' long_name) = None
   \<and> fst (resizeVM demo_env ''teamA'' long_name (Inr ''f2'') empty_world)
       = Reply 500 (Text (''Failed to read VM YAML: file name too long'' @ [CHR 0x0A]))
   \<and> trace (snd (resizeVM demo_env ''teamA'' long_name (Inr ''f2'') empty_world))
       = [Stat (vm_yamlPath demo_env ''teamA'' long_name),
          ReadFile (vm_yamlPath demo_env ''teamA'' long_name)]"
proof -
  have a: "files empty_world q = None" for q
    by (simp add: empty_world_def)
  have b: "resizeVM demo_env ''teamA'' ''vm1'' (Inr []) empty_world
       = (Reply 400 (Text (''Missing '' @ sq @ ''flavorId'' @ sq @ '' in request'' @ [CHR 0x0A])),
          empty_world)"
    by (simp add: resizeVM_def http_Error_def)
  have l: "255 < length (vm_yamlPath demo_env ''teamA'' long_name)"
    by (simp add: vm_yamlPath_def demo_env_def long_name_def)
  have e: "stat_err demo_env (vm_yamlPath demo_env ''teamA'' long_name) = Some ''file name too long''"
    "read_err demo_env (vm_yamlPath demo_env ''teamA'' long_name) = Some ''file name too long''"
    using l by (simp_all add: demo_env_def name_too_long_def)
  have c: "resizeVM demo_env ''teamA'' long_name (Inr ''f2'') empty_world
       = (Reply 500 (Text (''Failed to read VM YAML: file name too long'' @ [CHR 0x0A])),
          empty_world\<lparr>trace := trace empty_world
             @ [Stat (vm_yamlPath demo_env ''teamA'' long_name),
                ReadFile (vm_yamlPath demo_env ''teamA'' long_name)]\<rparr>)"
    by (simp add: resizeVM_def Let_def os_Stat_IsNotExist_def ioutil_ReadFile_def e http_Error_def)
  show ?thesis
    using a b by (simp add: c status_of_def) (simp add: empty_world_def)
qed

text \<open>
  C3, amended. A resize request whose body decodes and carries a non-empty \<open>flavorId\<close>,
  and for which the existence check of the applied-manifest path reports that the file does
  not exist, is answered 404 with \<open>"<path> not found"\<close>; the existence check on that path
  is the only call the handler made: nothing was read, written or applied. A request whose
  body does not decode, or whose \<open>flavorId\<close> is empty, is answered 400 and the handler
  makes no call at all. When the file does not exist and the existence check fails for
  another reason, the handler goes on to read the file, which fails, and answers 500; it
  wrote and applied nothing.
\<close>

theorem resizeVM_missing_file:
  "resizeVM E teamName vmName (Inl err) w
     = (http_Error (''Error decoding request: '' @ err) StatusBadRequest, w)
   \<and> resizeVM E teamName vmName (Inr []) w
       = (http_Error (''Missing '' @ sq @ ''flavorId'' @ sq @ '' in request'') StatusBadRequest, w)
   \<and> (FlavorID \<noteq> [] \<and> files w (vm_yamlPath E teamName vmName) = None
        \<and> stat_err E (vm_yamlPath E teamName vmName) = None \<longrightarrow>
      fst (resizeVM E teamName vmName (Inr FlavorID) w)
        = http_Error (vm_yamlPath E teamName vmName @ '' not found'') StatusNotFound
      \<and> new_events w (snd (resizeVM E teamName vmName (Inr FlavorID) w))
          = [Stat (vm_yamlPath E teamName vmName)]
      \<and> files (snd (resizeVM E teamName vmName (Inr FlavorID) w)) = files w)
   \<and> (FlavorID \<noteq> [] \<and> files w (vm_yamlPath E teamName vmName) = None
        \<and> stat_err E (vm_yamlPath E teamName vmName) \<noteq> None \<longrightarrow>
      status_of (fst (resizeVM E teamName vmName (Inr FlavorID) w)) = Some StatusInternalServerError
      \<and> new_events w (snd (resizeVM E teamName vmName (Inr FlavorID) w))
          = [Stat (vm_yamlPath E teamName vmName), ReadFile (vm_yamlPath E teamName vmName)]
      \<and> files (snd (resizeVM E teamName vmName (Inr FlavorID) w)) = files w)"
proof (intro conjI impI)
  show "resizeVM E teamName vmName (Inl err) w
     = (http_Error (''Error decoding request: '' @ err) StatusBadRequest, w)"
    by (simp add: resizeVM_def)
  show "resizeVM E teamName vmName (Inr []) w
       = (http_Error (''Missing '' @ sq @ ''flavorId'' @ sq @ '' in request'') StatusBadRequest, w)"
    by (simp add: resizeVM_def)
next
  assume a: "FlavorID \<noteq> [] \<and> files w (vm_yamlPath E teamName vmName) = None
        \<and> stat_err E (vm_yamlPath E teamName vmName) = None"
  then have r: "resizeVM E teamName vmName (Inr FlavorID) w
      = (http_Error (vm_yamlPath E teamName vmName @ '' not found'') StatusNotFound,
         w\<lparr>trace := trace w @ [Stat (vm_yamlPath E teamName vmName)]\<rparr>)"
    by (simp add: resizeVM_def os_Stat_IsNotExist_def Let_def)
  show "fst (resizeVM E teamName vmName (Inr FlavorID) w)
        = http_Error (vm_yamlPath E teamName vmName @ '' not found'') StatusNotFound"
    by (simp add: r)
  show "new_events w (snd (resizeVM E teamName vmName (Inr FlavorID) w))
          = [Stat (vm_yamlPath E teamName vmName)]"
    by (simp add: r)
  show "files (snd (resizeVM E teamName vmName (Inr FlavorID) w)) = files w"
    by (simp add: r)
next
  assume a: "FlavorID \<noteq> [] \<and> files w (vm_yamlPath E teamName vmName) = None
        \<and> stat_err E (vm_yamlPath E teamName vmName) \<noteq> None"
  then obtain e where e: "stat_err E (vm_yamlPath E teamName vmName) = Some e"
    by blast
  have r: "snd (resizeVM E teamName vmName (Inr FlavorID) w)
        = w\<lparr>trace := trace w @ [Stat (vm_yamlPath E teamName vmName),
                                   ReadFile (vm_yamlPath E teamName vmName)]\<rparr>
      \<and> status_of (fst (resizeVM E teamName vmName (Inr FlavorID) w))
          = Some StatusInternalServerError"
    using a e
    by (cases "read_err E (vm_yamlPath E teamName vmName)")
       (simp_all add: resizeVM_def os_Stat_IsNotExist_def ioutil_ReadFile_def Let_def
          status_of_def http_Error_def)
  show "status_of (fst (resizeVM E teamName vmName (Inr FlavorID) w)) = Some StatusInternalServerError"
    by (simp add: r)
  show "new_events w (snd (resizeVM E teamName vmName (Inr FlavorID) w))
          = [Stat (vm_yamlPath E teamName vmName), ReadFile (vm_yamlPath E teamName vmName)]"
    by (simp add: r)
  show "files (snd (resizeVM E teamName vmName (Inr FlavorID) w)) = files w"
    by (simp add: r)
qed

text \<open>
  The scenario of the specification, \<open>flavorId\<close> \<open>f2\<close> for \<open>teamA\<close>/\<open>vm1\<close> with no stored
  file; a body that does not decode; and the name of 300 bytes.
\<close>

theorem resizeVM_missing_file_witness:
  "''f2'' \<noteq> []
   \<and> files empty_world (vm_yamlPath demo_env ''teamA'' ''vm1'') = None
   \<and> stat_err demo_env (vm_yamlPath demo_env ''teamA'' ''vm1'') = None
   \<and> fst (resizeVM demo_env ''teamA'' ''vm1'' (Inr ''f2'') empty_world)
       = Reply 404 (Text (''/home/ubuntu/crossplane-api/teamA-vm1.yaml not found'' @ [CHR 0x0A]))
   \<and> new_events empty_world (snd (resizeVM demo_env ''teamA'' ''vm1'' (Inr ''f2'') empty_world))
       = [Stat ''/home/ubuntu/crossplane-api/teamA-vm1.yaml'']
   \<and> resizeVM demo_env ''teamA'' ''vm1'' (Inl ''EOF'') empty_world
       = (Reply 400 (Text (''Error decoding request: EOF'' @ [CHR 0x0A])), empty_world)
   \<and> files empty_world (vm_yamlPath demo_env ''teamA'' long_name) = None
   \<and> stat_err demo_env (vm_yamlPath demo_env ''teamA'' long_name) \<noteq> None
   \<and> status_of (fst (resizeVM demo_env ''teamA'' long_name (Inr ''f2'') empty_world)) = Some 500
   \<and> new_events empty_world (snd (resizeVM demo_env ''teamA'' long_name (Inr ''f2'') empty_world))
       = [Stat (vm_yamlPath demo_env ''teamA'' long_name),
          ReadFile (vm_yamlPath demo_env ''teamA'' long_name)]"
proof -
  have h1: "''f2'' \<noteq> []" by simp
  have h2: "files empty_world q = None" for q
    by (simp add: empty_world_def)
  have p: "vm_yamlPath demo_env ''teamA'' ''vm1'' = ''/home/ubuntu/crossplane-api/teamA-vm1.yaml''"
    by (simp add: vm_yamlPath_def demo_env_def)
  have h3: "stat_err demo_env ''/home/ubuntu/crossplane-api/teamA-vm1.yaml'' = None"
    by (simp add: demo_env_def name_too_long_def)
  have l: "255 < length (vm_yamlPath demo_env ''teamA'' long_name)"
    by (simp add: vm_yamlPath_def demo_env_def long_name_def)
  have h4: "stat_err demo_env (vm_yamlPath demo_env ''teamA'' long_name) \<noteq> None"
    using l by (simp add: demo_env_def name_too_long_def)
  show ?thesis
    using resizeVM_missing_file [of demo_env "''teamA''" "''vm1''" "''EOF''" empty_world "''f2''"]
          resizeVM_missing_file [of demo_env "''teamA''" long_name "''EOF''" empty_world "''f2''"]
          h2 h3 h4
    by (simp add: p http_Error_def)
qed

subsection \<open>Resize of a stored manifest without the expected nesting\<close>

text \<open>
  When \<open>spec\<close> or \<open>forProvider\<close> is not a mapping, both type assertions of lines 194
  and 195 only guard the assignment: no branch reports the absence, and the handler goes on
  to write the document back and to apply it.
\<close>

lemma set_flavorId_skipped:
  assumes "\<not> has_forProvider instance"
  shows "set_flavorId f instance = instance"
proof (cases "map_of instance ''spec''")
  case None
  then show ?thesis by (simp add: set_flavorId_def)
next
  case (Some v)
  show ?thesis
  proof (cases v)
    case (VMap spec)
    show ?thesis
    proof (cases "map_of spec (VStr ''forProvider'')")
      case None
      with Some VMap show ?thesis by (simp add: set_flavorId_def)
    next
      case inner: (Some u)
      with Some VMap assms show ?thesis
        by (cases u) (simp_all add: set_flavorId_def has_forProvider_def)
    qed
  qed (simp_all add: Some set_flavorId_def)
qed

lemma resizeVM_applies_mutation:
  assumes "FlavorID \<noteq> []"
    and "files w (vm_yamlPath E teamName vmName) = Some c"
    and "read_err E (vm_yamlPath E teamName vmName) = None"
    and "yaml_Unmarshal E c = Inr instance"
    and "yaml_Marshal E (str_map (set_flavorId FlavorID instance)) = Inr b"
    and "write_err E (vm_yamlPath E teamName vmName) = None"
  shows "snd (resizeVM E teamName vmName (Inr FlavorID) w)
           = w\<lparr>trace := trace w @ [Stat (vm_yamlPath E teamName vmName),
                                      ReadFile (vm_yamlPath E teamName vmName),
                                      WriteFile (vm_yamlPath E teamName vmName) b,
                                      Run [''kubectl'', ''apply'', ''-f'', vm_yamlPath E teamName vmName]],
                files := (files w)(vm_yamlPath E teamName vmName \<mapsto> b)\<rparr>"
  using assms
  by (simp add: resizeVM_def Let_def os_Stat_IsNotExist_def ioutil_ReadFile_def applyYAML_def
        ioutil_WriteFile_def exec_Run_def split: option.splits)

lemma resizeVM_malformed_proceeds:
  assumes "FlavorID \<noteq> []"
    and "files w (vm_yamlPath E teamName vmName) = Some c"
    and "read_err E (vm_yamlPath E teamName vmName) = None"
    and "yaml_Unmarshal E c = Inr instance"
    and "\<not> has_forProvider instance"
    and "yaml_Marshal E (str_map instance) = Inr b"
    and "write_err E (vm_yamlPath E teamName vmName) = None"
  shows "new_events w (snd (resizeVM E teamName vmName (Inr FlavorID) w))
           = [Stat (vm_yamlPath E teamName vmName),
              ReadFile (vm_yamlPath E teamName vmName),
              WriteFile (vm_yamlPath E teamName vmName) b,
              Run [''kubectl'', ''apply'', ''-f'', vm_yamlPath E teamName vmName]]"
proof -
  have "yaml_Marshal E (str_map (set_flavorId FlavorID instance)) = Inr b"
    using assms(5,6) by (simp add: set_flavorId_skipped)
  from resizeVM_applies_mutation [OF assms(1-4) this assms(7)] show ?thesis
    by (simp add: new_events_def)
qed

text \<open>
  C2. A resize of a stored manifest that lacks the expected nesting is to fail and be
  reported to the caller. Run on the stored document of \<open>teamA\<close>/\<open>vm9\<close>, which has no
  \<open>spec\<close>, with an apply command that succeeds, the handler answers 200 with
  \<open>"Flavor for VM 'vm9' updated successfully."\<close>, having written the unchanged document
  back and applied it.
\<close>

theorem resizeVM_malformed_manifest_reports_success:
  "files stored_world ''/home/ubuntu/crossplane-api/teamA-vm9.yaml'' = Some configmap_bytes
   \<and> yaml_Unmarshal demo_env configmap_bytes = Inr configmap_doc
   \<and> map_of configmap_doc ''spec'' = None
   \<and> \<not> has_forProvider configmap_doc
   \<and> fst (resizeVM demo_env ''teamA'' ''vm9'' (Inr ''f2'') stored_world)
       = Reply 200 (Json [(''message'', ''Flavor for VM '' @ sq @ ''vm9'' @ sq @ '' updated successfully.'')])
   \<and> trace (snd (resizeVM demo_env ''teamA'' ''vm9'' (Inr ''f2'') stored_world))
       = [Stat ''/home/ubuntu/crossplane-api/teamA-vm9.yaml'',
          ReadFile ''/home/ubuntu/crossplane-api/teamA-vm9.yaml'',
          WriteFile ''/home/ubuntu/crossplane-api/teamA-vm9.yaml'' configmap_bytes,
          Run [''kubectl'', ''apply'', ''-f'', ''/home/ubuntu/crossplane-api/teamA-vm9.yaml'']]
   \<and> files (snd (resizeVM demo_env ''teamA'' ''vm9'' (Inr ''f2'') stored_world))
        ''/home/ubuntu/crossplane-api/teamA-vm9.yaml'' = Some configmap_bytes"
proof -
  have p: "vm_yamlPath demo_env ''teamA'' ''vm9'' = ''/home/ubuntu/crossplane-api/teamA-vm9.yaml''"
    by (simp add: vm_yamlPath_def demo_env_def)
  have f: "files stored_world ''/home/ubuntu/crossplane-api/teamA-vm9.yaml'' = Some configmap_bytes"
    by (simp add: stored_world_def)
  have u: "yaml_Unmarshal demo_env configmap_bytes = Inr configmap_doc"
    by (simp add: demo_env_def)
  have n: "map_of configmap_doc ''spec'' = None"
    by (simp add: configmap_doc_def)
  have nf: "\<not> has_forProvider configmap_doc"
    by (simp add: has_forProvider_def n)
  have s: "set_flavorId ''f2'' configmap_doc = configmap_doc"
    by (simp add: set_flavorId_def n)
  have m: "yaml_Marshal demo_env (str_map configmap_doc) = Inr configmap_bytes"
    by (simp add: demo_env_def)
  have r: "cmd_Run demo_env [''kubectl'', ''apply'', ''-f'', ''/home/ubuntu/crossplane-api/teamA-vm9.yaml''] w
             = \<lparr>run_err = None, out_stdout = [], out_stderr = []\<rparr>" for w
    by (simp add: demo_env_def demo_Run_def statusCmd_def)
  have e: "read_err demo_env ''/home/ubuntu/crossplane-api/teamA-vm9.yaml'' = None"
    "stat_err demo_env ''/home/ubuntu/crossplane-api/teamA-vm9.yaml'' = None"
    "write_err demo_env ''/home/ubuntu/crossplane-api/teamA-vm9.yaml'' = None"
    by (simp_all add: demo_env_def name_too_long_def)
  have "resizeVM demo_env ''teamA'' ''vm9'' (Inr ''f2'') stored_world
      = (Reply 200 (Json [(''message'', ''Flavor for VM '' @ sq @ ''vm9'' @ sq @ '' updated successfully.'')]),
         stored_world\<lparr>trace := [Stat ''/home/ubuntu/crossplane-api/teamA-vm9.yaml'',
          ReadFile ''/home/ubuntu/crossplane-api/teamA-vm9.yaml'',
          WriteFile ''/home/ubuntu/crossplane-api/teamA-vm9.yaml'' configmap_bytes,
          Run [''kubectl'', ''apply'', ''-f'', ''/home/ubuntu/crossplane-api/teamA-vm9.yaml'']],
          files := (files stored_world)(''/home/ubuntu/crossplane-api/teamA-vm9.yaml'' \<mapsto> configmap_bytes)\<rparr>)"
    unfolding resizeVM_def
    by (simp add: p f u s m r e Let_def os_Stat_IsNotExist_def ioutil_ReadFile_def applyYAML_def
          ioutil_WriteFile_def exec_Run_def Encode_def) (simp add: stored_world_def)
  then show ?thesis
    using f u n nf by simp
qed

subsection \<open>Idempotence of the resize mutation\<close>

lemma set_flavorId_nested:
  assumes "map_of instance ''spec'' = Some (VMap spec)"
    and "map_of spec (VStr ''forProvider'') = Some (VMap forProvider)"
  shows "set_flavorId f instance =
           AList.update ''spec''
             (VMap (AList.update (VStr ''forProvider'')
                (VMap (AList.update (VStr ''flavorId'') (VStr f) forProvider)) spec))
             instance"
  using assms by (simp add: set_flavorId_def)

lemma has_forProvider_nested:
  assumes "has_forProvider instance"
  shows "\<exists>spec forProvider. map_of instance ''spec'' = Some (VMap spec)
           \<and> map_of spec (VStr ''forProvider'') = Some (VMap forProvider)"
proof (cases "map_of instance ''spec''")
  case None
  with assms show ?thesis by (simp add: has_forProvider_def)
next
  case (Some v)
  show ?thesis
  proof (cases v)
    case (VMap spec)
    show ?thesis
    proof (cases "map_of spec (VStr ''forProvider'')")
      case None
      with Some VMap assms show ?thesis by (simp add: has_forProvider_def)
    next
      case inner: (Some u)
      with Some VMap assms show ?thesis
        by (cases u) (simp_all add: has_forProvider_def)
    qed
  qed (insert assms Some, simp_all add: has_forProvider_def)
qed

text \<open>
  C7. On a stored manifest with the expected nesting, setting the same \<open>flavorId\<close> twice
  gives the manifest that setting it once gives; that manifest still has the nesting and
  reads the new flavor under \<open>spec.forProvider.flavorId\<close>.
\<close>

theorem resize_idempotent:
  assumes "has_forProvider instance"
  shows "set_flavorId f (set_flavorId f instance) = set_flavorId f instance
         \<and> has_forProvider (set_flavorId f instance)
         \<and> get_in (str_map (set_flavorId f instance)) [''spec'', ''forProvider'', ''flavorId'']
             = Some (VStr f)"
proof -
  from has_forProvider_nested [OF assms] obtain spec forProvider where
    sp: "map_of instance ''spec'' = Some (VMap spec)" and
    fp: "map_of spec (VStr ''forProvider'') = Some (VMap forProvider)"
    by blast
  let ?fp' = "AList.update (VStr ''flavorId'') (VStr f) forProvider"
  let ?spec' = "AList.update (VStr ''forProvider'') (VMap ?fp') spec"
  let ?inst' = "AList.update ''spec'' (VMap ?spec') instance"
  have once: "set_flavorId f instance = ?inst'"
    by (rule set_flavorId_nested [OF sp fp])
  have sp': "map_of ?inst' ''spec'' = Some (VMap ?spec')"
    by (simp add: update_conv')
  have fp': "map_of ?spec' (VStr ''forProvider'') = Some (VMap ?fp')"
    by (simp add: update_conv')
  have twice: "set_flavorId f ?inst' = ?inst'"
    by (simp add: set_flavorId_nested [OF sp' fp'])
  have nest: "has_forProvider ?inst'"
    by (simp add: has_forProvider_def sp' fp')
  have rd: "get_in (str_map ?inst') [''spec'', ''forProvider'', ''flavorId''] = Some (VStr f)"
    by (simp add: str_map_def sp' fp' update_conv')
  show ?thesis
    using twice nest rd by (simp add: once)
qed

theorem resize_idempotent_witness:
  "has_forProvider stored_vm1
   \<and> set_flavorId ''f2'' stored_vm1 =
       [(''kind'', VStr ''InstanceV2''),
        (''spec'', VMap [(VStr ''forProvider'',
                          VMap [(VStr ''flavorId'', VStr ''f2''), (VStr ''imageId'', VStr ''img1'')])])]
   \<and> set_flavorId ''f2'' (set_flavorId ''f2'' stored_vm1) = set_flavorId ''f2'' stored_vm1"
proof -
  have h: "has_forProvider stored_vm1"
    by (simp add: has_forProvider_def stored_vm1_def)
  have e: "set_flavorId ''f2'' stored_vm1 =
       [(''kind'', VStr ''InstanceV2''),
        (''spec'', VMap [(VStr ''forProvider'',
                          VMap [(VStr ''flavorId'', VStr ''f2''), (VStr ''imageId'', VStr ''img1'')])])]"
    by (simp add: set_flavorId_def stored_vm1_def)
  show ?thesis
    using resize_idempotent [OF h, of "''f2''"] h e by simp
qed

text \<open>
  The same holds without the nesting, where the mutation changes nothing, and carries over
  to the handler: when the YAML library reads back what it wrote, a second resize with the
  same \<open>flavorId\<close> leaves every file as the first resize left it.
\<close>

lemma set_flavorId_twice:
  "set_flavorId f (set_flavorId f instance) = set_flavorId f instance"
proof (cases "has_forProvider instance")
  case False
  then show ?thesis by (simp add: set_flavorId_skipped)
next
  case True
  from has_forProvider_nested [OF True] obtain spec forProvider where
    sp: "map_of instance ''spec'' = Some (VMap spec)" and
    fp: "map_of spec (VStr ''forProvider'') = Some (VMap forProvider)"
    by blast
  let ?fp' = "AList.update (VStr ''flavorId'') (VStr f) forProvider"
  let ?spec' = "AList.update (VStr ''forProvider'') (VMap ?fp') spec"
  let ?inst' = "AList.update ''spec'' (VMap ?spec') instance"
  have sp': "map_of ?inst' ''spec'' = Some (VMap ?spec')"
    by (simp add: update_conv')
  have fp': "map_of ?spec' (VStr ''forProvider'') = Some (VMap ?fp')"
    by (simp add: update_conv')
  have "set_flavorId f ?inst' = ?inst'"
    by (simp add: set_flavorId_nested [OF sp' fp'])
  then show ?thesis
    by (simp add: set_flavorId_nested [OF sp fp])
qed

lemma resizeVM_twice_same_file:
  assumes "FlavorID \<noteq> []"
    and "files w (vm_yamlPath E teamName vmName) = Some c"
    and "read_err E (vm_yamlPath E teamName vmName) = None"
    and "yaml_Unmarshal E c = Inr instance"
    and "yaml_Marshal E (str_map (set_flavorId FlavorID instance)) = Inr b"
    and "write_err E (vm_yamlPath E teamName vmName) = None"
    and "yaml_Unmarshal E b = Inr (set_flavorId FlavorID instance)"
  shows "files (snd (resizeVM E teamName vmName (Inr FlavorID)
                      (snd (resizeVM E teamName vmName (Inr FlavorID) w))))
           = files (snd (resizeVM E teamName vmName (Inr FlavorID) w))"
proof -
  let ?p = "vm_yamlPath E teamName vmName"
  let ?w1 = "snd (resizeVM E teamName vmName (Inr FlavorID) w)"
  have f1: "files ?w1 = (files w)(?p \<mapsto> b)"
    by (simp add: resizeVM_applies_mutation [OF assms(1-6)])
  then have r1: "files ?w1 ?p = Some b"
    by simp
  have m: "yaml_Marshal E (str_map (set_flavorId FlavorID (set_flavorId FlavorID instance))) = Inr b"
    by (simp add: set_flavorId_twice assms(5))
  have "files (snd (resizeVM E teamName vmName (Inr FlavorID) ?w1)) = (files ?w1)(?p \<mapsto> b)"
    by (simp add: resizeVM_applies_mutation [OF assms(1) r1 assms(3) assms(7) m assms(6)])
  also have "\<dots> = files ?w1"
    using r1 by (simp add: map_upd_triv)
  finally show ?thesis .
qed

subsection \<open>Creation of a VM: the security groups of the built manifest\<close>

lemma securityGroups_of_instanceYAML:
  "get_in (instanceYAML teamID d) [''spec'', ''forProvider'', ''securityGroups'']
     = Some (str_slice (vm_SecurityGroups d))"
  by (simp add: instanceYAML_def str_map_def)

lemma createVM_valid_unfold:
  assumes "vm_Name d \<noteq> []" "vm_ImageID d \<noteq> []" "vm_FlavorID d \<noteq> []" "vm_NetworkID d \<noteq> []"
    and "yaml_Marshal E (instanceYAML teamID (default_SecurityGroups d)) = Inr b"
    and "write_err E (vm_yamlPath E teamID (vm_Name d)) = None"
  shows "snd (createVM E teamID (Inr d) w)
     = w\<lparr>trace := trace w @ [WriteFile (vm_yamlPath E teamID (vm_Name d)) b,
                                Run [''kubectl'', ''apply'', ''-f'', vm_yamlPath E teamID (vm_Name d)]],
          files := (files w)(vm_yamlPath E teamID (vm_Name d) \<mapsto> b)\<rparr>"
proof -
  have n: "vm_Name (default_SecurityGroups d) = vm_Name d"
    by (simp add: default_SecurityGroups_def)
  show ?thesis
    using assms
    by (simp add: createVM_def Let_def n applyYAML_def ioutil_WriteFile_def exec_Run_def
          split: option.splits)
qed

text \<open>
  C4. For a VM-creation request with its four required fields, the manifest that \<open>createVM\<close>
  builds has under \<open>spec.forProvider.securityGroups\<close> the supplied list when that list is
  not empty, and the one-element list \<open>default\<close> when the list is omitted or empty. That
  manifest is the one the handler marshals, writes to the file of the VM and applies.
\<close>

theorem createVM_securityGroups:
  assumes "vm_Name d \<noteq> []" and "vm_ImageID d \<noteq> []" and "vm_FlavorID d \<noteq> []"
    and "vm_NetworkID d \<noteq> []"
  shows "(\<forall>sgs. vm_SecurityGroups d = Some sgs \<and> sgs \<noteq> [] \<longrightarrow>
            get_in (instanceYAML teamID (default_SecurityGroups d))
              [''spec'', ''forProvider'', ''securityGroups''] = Some (VSeq (map VStr sgs)))
         \<and> (vm_SecurityGroups d = None \<or> vm_SecurityGroups d = Some [] \<longrightarrow>
            get_in (instanceYAML teamID (default_SecurityGroups d))
              [''spec'', ''forProvider'', ''securityGroups''] = Some (VSeq [VStr ''default'']))
         \<and> (\<forall>b. yaml_Marshal E (instanceYAML teamID (default_SecurityGroups d)) = Inr b
                 \<and> write_err E (vm_yamlPath E teamID (vm_Name d)) = None \<longrightarrow>
               new_events w (snd (createVM E teamID (Inr d) w))
                 = [WriteFile (vm_yamlPath E teamID (vm_Name d)) b,
                    Run [''kubectl'', ''apply'', ''-f'', vm_yamlPath E teamID (vm_Name d)]]
               \<and> files (snd (createVM E teamID (Inr d) w)) (vm_yamlPath E teamID (vm_Name d))
                   = Some b)"
proof (intro conjI allI impI)
  fix sgs assume "vm_SecurityGroups d = Some sgs \<and> sgs \<noteq> []"
  then show "get_in (instanceYAML teamID (default_SecurityGroups d))
      [''spec'', ''forProvider'', ''securityGroups''] = Some (VSeq (map VStr sgs))"
    by (simp add: securityGroups_of_instanceYAML default_SecurityGroups_def len_def str_slice_def)
next
  assume "vm_SecurityGroups d = None \<or> vm_SecurityGroups d = Some []"
  then show "get_in (instanceYAML teamID (default_SecurityGroups d))
      [''spec'', ''forProvider'', ''securityGroups''] = Some (VSeq [VStr ''default''])"
    by (auto simp: securityGroups_of_instanceYAML default_SecurityGroups_def len_def str_slice_def)
next
  fix b
  assume "yaml_Marshal E (instanceYAML teamID (default_SecurityGroups d)) = Inr b
            \<and> write_err E (vm_yamlPath E teamID (vm_Name d)) = None"
  then have s: "snd (createVM E teamID (Inr d) w)
     = w\<lparr>trace := trace w @ [WriteFile (vm_yamlPath E teamID (vm_Name d)) b,
                                Run [''kubectl'', ''apply'', ''-f'', vm_yamlPath E teamID (vm_Name d)]],
          files := (files w)(vm_yamlPath E teamID (vm_Name d) \<mapsto> b)\<rparr>"
    using assms createVM_valid_unfold by blast
  show "new_events w (snd (createVM E teamID (Inr d) w))
                 = [WriteFile (vm_yamlPath E teamID (vm_Name d)) b,
                    Run [''kubectl'', ''apply'', ''-f'', vm_yamlPath E teamID (vm_Name d)]]"
    by (simp add: s new_events_def)
  show "files (snd (createVM E teamID (Inr d) w)) (vm_yamlPath E teamID (vm_Name d)) = Some b"
    by (simp add: s)
qed

theorem createVM_securityGroups_witness:
  "vm_Name (vm1_request None) \<noteq> [] \<and> vm_ImageID (vm1_request None) \<noteq> []
   \<and> vm_FlavorID (vm1_request None) \<noteq> [] \<and> vm_NetworkID (vm1_request None) \<noteq> []
   \<and> get_in (instanceYAML ''teamA'' (default_SecurityGroups (vm1_request None)))
        [''spec'', ''forProvider'', ''securityGroups''] = Some (VSeq [VStr ''default''])
   \<and> get_in (instanceYAML ''teamA'' (default_SecurityGroups (vm1_request (Some []))))
        [''spec'', ''forProvider'', ''securityGroups''] = Some (VSeq [VStr ''default''])
   \<and> get_in (instanceYAML ''teamA'' (default_SecurityGroups (vm1_request (Some [''web'', ''ssh'']))))
        [''spec'', ''forProvider'', ''securityGroups''] = Some (VSeq [VStr ''web'', VStr ''ssh''])
   \<and> new_events empty_world (snd (createVM demo_env ''teamA'' (Inr (vm1_request None)) empty_world))
       = [WriteFile ''/home/ubuntu/crossplane-api/teamA-vm1.yaml'' ''---'',
          Run [''kubectl'', ''apply'', ''-f'', ''/home/ubuntu/crossplane-api/teamA-vm1.yaml'']]"
proof -
  have v: "vm_Name (vm1_request s) \<noteq> []" "vm_ImageID (vm1_request s) \<noteq> []"
    "vm_FlavorID (vm1_request s) \<noteq> []" "vm_NetworkID (vm1_request s) \<noteq> []" for s
    by (simp_all add: vm1_request_def)
  have s: "vm_SecurityGroups (vm1_request s) = s" for s
    by (simp add: vm1_request_def)
  have p: "vm_yamlPath demo_env ''teamA'' (vm_Name (vm1_request None))
             = ''/home/ubuntu/crossplane-api/teamA-vm1.yaml''"
    by (simp add: vm_yamlPath_def demo_env_def vm1_request_def)
  have m: "yaml_Marshal demo_env (instanceYAML ''teamA'' (default_SecurityGroups (vm1_request None)))
             = Inr ''---''"
    by (simp add: demo_env_def instanceYAML_def str_map_def configmap_doc_def)
  have e: "write_err demo_env p = None" for p
    by (simp add: demo_env_def)
  show ?thesis
    using createVM_securityGroups [OF v, of None "''teamA''" demo_env empty_world]
          createVM_securityGroups [OF v, of "Some []" "''teamA''" demo_env empty_world]
          createVM_securityGroups [OF v, of "Some [''web'', ''ssh'']" "''teamA''" demo_env empty_world]
          v [of None] m
    by (simp add: s p e)
qed

subsection \<open>Creation of a VM with a required field missing\<close>

text \<open>
  C5, as stated: the 400 reply is to name the missing field. A request without \<open>name\<close>
  is answered with a text that does not contain the word \<open>name\<close>, and a request without
  \<open>networkId\<close> is answered with the very same text.
\<close>

theorem createVM_names_missing_field_counterexample:
  "vm_Name \<lparr>vm_Name = [], vm_ImageID = ''img1'', vm_FlavorID = ''f1'', vm_NetworkID = ''net1'',
            vm_SecurityGroups = None\<rparr> = []
   \<and> fst (createVM demo_env ''teamA''
         (Inr \<lparr>vm_Name = [], vm_ImageID = ''img1'', vm_FlavorID = ''f1'', vm_NetworkID = ''net1'',
               vm_SecurityGroups = None\<rparr>) empty_world)
       = Reply 400 (Text (''Missing required fields'' @ [CHR 0x0A]))
   \<and> \<not> mentions (''Missing required fields'' @ [CHR 0x0A]) ''name''
   \<and> fst (createVM demo_env ''teamA''
         (Inr \<lparr>vm_Name = ''vm1'', vm_ImageID = ''img1'', vm_FlavorID = ''f1'', vm_NetworkID = [],
               vm_SecurityGroups = None\<rparr>) empty_world)
       = Reply 400 (Text (''Missing required fields'' @ [CHR 0x0A]))"
  by (simp add: createVM_def http_Error_def)

text \<open>
  C5, amended. A VM-creation request in which one of \<open>name\<close>, \<open>imageId\<close>,
  \<open>flavorId\<close>, \<open>networkId\<close> is absent or empty is answered 400 with the fixed text
  \<open>"Missing required fields"\<close>, which does not say which field is missing; the world is
  left as it was: no manifest was written and no command was run.
\<close>

theorem createVM_missing_field:
  assumes "vm_Name d = [] \<or> vm_ImageID d = [] \<or> vm_FlavorID d = [] \<or> vm_NetworkID d = []"
  shows "createVM E teamID (Inr d) w = (http_Error ''Missing required fields'' StatusBadRequest, w)"
  using assms by (simp add: createVM_def)

theorem createVM_missing_field_witness:
  "(vm_Name \<lparr>vm_Name = ''vm1'', vm_ImageID = [], vm_FlavorID = ''f1'', vm_NetworkID = ''net1'',
             vm_SecurityGroups = Some [''web'']\<rparr> = []
    \<or> vm_ImageID \<lparr>vm_Name = ''vm1'', vm_ImageID = [], vm_FlavorID = ''f1'', vm_NetworkID = ''net1'',
             vm_SecurityGroups = Some [''web'']\<rparr> = []
    \<or> vm_FlavorID \<lparr>vm_Name = ''vm1'', vm_ImageID = [], vm_FlavorID = ''f1'', vm_NetworkID = ''net1'',
             vm_SecurityGroups = Some [''web'']\<rparr> = []
    \<or> vm_NetworkID \<lparr>vm_Name = ''vm1'', vm_ImageID = [], vm_FlavorID = ''f1'', vm_NetworkID = ''net1'',
             vm_SecurityGroups = Some [''web'']\<rparr> = [])
   \<and> createVM demo_env ''teamA''
         (Inr \<lparr>vm_Name = ''vm1'', vm_ImageID = [], vm_FlavorID = ''f1'', vm_NetworkID = ''net1'',
               vm_SecurityGroups = Some [''web'']\<rparr>) empty_world
       = (Reply 400 (Text (''Missing required fields'' @ [CHR 0x0A])), empty_world)"
  using createVM_missing_field [of "\<lparr>vm_Name = ''vm1'', vm_ImageID = [], vm_FlavorID = ''f1'',
      vm_NetworkID = ''net1'', vm_SecurityGroups = Some [''web'']\<rparr>" demo_env "''teamA''" empty_world]
  by (simp add: http_Error_def)

subsection \<open>Scale and block-volume creation: zero\<close>

text \<open>
  C8. A scale request without \<open>replicas\<close> is answered 400 and runs nothing. With
  \<open>replicas\<close> equal to 0 the handler runs \<open>kubectl scale ... --replicas=0\<close>, does not
  answer 400, and answers 200 when that command succeeds. Whatever the request, the handler
  leaves every file as it was and its only calls are runs of a command: it reads and writes
  no manifest file.
\<close>

theorem scaleVM_replicas:
  "scaleVM E teamID resourceID (Inr None) w
     = (http_Error (''Missing '' @ sq @ ''replicas'' @ sq @ '' in request'') StatusBadRequest, w)
   \<and> new_events w (snd (scaleVM E teamID resourceID (Inr (Some 0)) w))
       = [Run [''kubectl'', ''scale'', ''deployment/'' @ resourceID, ''--replicas=0'', ''-n'', teamID]]
   \<and> (run_err (cmd_Run E (scale_argv teamID resourceID 0) w) = None \<longrightarrow>
        fst (scaleVM E teamID resourceID (Inr (Some 0)) w)
          = Encode [(''message'', ''Scaled VM '' @ sq @ resourceID @ sq @ '' to 0 replicas.'')])
   \<and> status_of (fst (scaleVM E teamID resourceID (Inr (Some 0)) w)) \<noteq> Some StatusBadRequest
   \<and> files (snd (scaleVM E teamID resourceID decoded w)) = files w
   \<and> list_all is_Run (new_events w (snd (scaleVM E teamID resourceID decoded w)))"
  by (auto simp: scaleVM_def exec_Run_def scale_argv_def fmt_d_0 is_Run_def status_of_def
        http_Error_def Encode_def
      split: sum.splits option.splits)

theorem scaleVM_replicas_witness:
  "run_err (cmd_Run demo_env (scale_argv ''teamA'' ''web'' 0) empty_world) = None
   \<and> scaleVM demo_env ''teamA'' ''web'' (Inr (Some 0)) empty_world
       = (Reply 200 (Json [(''message'', ''Scaled VM '' @ sq @ ''web'' @ sq @ '' to 0 replicas.'')]),
          \<lparr>files = Map.empty,
           trace = [Run [''kubectl'', ''scale'', ''deployment/web'', ''--replicas=0'', ''-n'', ''teamA'']]\<rparr>)
   \<and> scaleVM demo_env ''teamA'' ''web'' (Inr None) empty_world
       = (Reply 400 (Text (''Missing '' @ sq @ ''replicas'' @ sq @ '' in request'' @ [CHR 0x0A])),
          empty_world)"
proof -
  have h: "run_err (cmd_Run demo_env (scale_argv ''teamA'' ''web'' 0) empty_world) = None"
    by (simp add: demo_env_def demo_Run_def scale_argv_def statusCmd_def)
  have t: "trace (snd (scaleVM demo_env ''teamA'' ''web'' (Inr (Some 0)) empty_world))
      = [Run [''kubectl'', ''scale'', ''deployment/web'', ''--replicas=0'', ''-n'', ''teamA'']]"
    using scaleVM_replicas [of demo_env "''teamA''" "''web''" empty_world "Inr (Some 0)"]
    by (simp add: new_events_def empty_world_def)
  have f: "files (snd (scaleVM demo_env ''teamA'' ''web'' (Inr (Some 0)) empty_world)) = Map.empty"
    using scaleVM_replicas [of demo_env "''teamA''" "''web''" empty_world "Inr (Some 0)"]
    by (simp add: empty_world_def)
  have r: "fst (scaleVM demo_env ''teamA'' ''web'' (Inr (Some 0)) empty_world)
      = Reply 200 (Json [(''message'', ''Scaled VM '' @ sq @ ''web'' @ sq @ '' to 0 replicas.'')])"
    using scaleVM_replicas [of demo_env "''teamA''" "''web''" empty_world "Inr (Some 0)"] h
    by (simp add: Encode_def)
  have n: "scaleVM demo_env ''teamA'' ''web'' (Inr None) empty_world
       = (Reply 400 (Text (''Missing '' @ sq @ ''replicas'' @ sq @ '' in request'' @ [CHR 0x0A])),
          empty_world)"
    using scaleVM_replicas [of demo_env "''teamA''" "''web''" empty_world "Inr None"]
    by (simp add: http_Error_def)
  have "snd (scaleVM demo_env ''teamA'' ''web'' (Inr (Some 0)) empty_world)
      = \<lparr>files = Map.empty,
         trace = [Run [''kubectl'', ''scale'', ''deployment/web'', ''--replicas=0'', ''-n'', ''teamA'']]\<rparr>"
    using t f by (cases "snd (scaleVM demo_env ''teamA'' ''web'' (Inr (Some 0)) empty_world)") simp
  with r have "scaleVM demo_env ''teamA'' ''web'' (Inr (Some 0)) empty_world
       = (Reply 200 (Json [(''message'', ''Scaled VM '' @ sq @ ''web'' @ sq @ '' to 0 replicas.'')]),
          \<lparr>files = Map.empty,
           trace = [Run [''kubectl'', ''scale'', ''deployment/web'', ''--replicas=0'', ''-n'', ''teamA'']]\<rparr>)"
    by (simp add: prod_eq_iff)
  with h n show ?thesis by simp
qed

text \<open>
  C10. A block-volume request whose decoded size is 0, which is also what an absent size
  decodes to, is answered 400 with \<open>"Missing required fields (name or size)"\<close> and leaves
  the world as it was: no command is run. The scale handler, given 0 replicas, runs its
  command.
\<close>

theorem createBlockVolume_zero_size:
  assumes "vol_Size d = 0"
  shows "createBlockVolume E teamName (Inr d) w
           = (http_Error ''Missing required fields (name or size)'' StatusBadRequest, w)
         \<and> new_events w (snd (scaleVM E teamID resourceID (Inr (Some 0)) w))
             = [Run (scale_argv teamID resourceID 0)]"
  using assms
  by (simp add: createBlockVolume_def scaleVM_def exec_Run_def split: option.splits)

theorem createBlockVolume_zero_size_witness:
  "vol_Size \<lparr>vol_Name = ''data1'', vol_Size = 0, vol_Description = ''scratch''\<rparr> = 0
   \<and> createBlockVolume demo_env ''teamA''
        (Inr \<lparr>vol_Name = ''data1'', vol_Size = 0, vol_Description = ''scratch''\<rparr>) empty_world
       = (Reply 400 (Text (''Missing required fields (name or size)'' @ [CHR 0x0A])), empty_world)"
proof -
  have h: "vol_Size \<lparr>vol_Name = ''data1'', vol_Size = 0, vol_Description = ''scratch''\<rparr> = 0"
    by simp
  show ?thesis
    using createBlockVolume_zero_size [OF h, of demo_env "''teamA''" empty_world] h
    by (simp add: http_Error_def)
qed

subsection \<open>Removal of the transient manifest file\<close>







text \<open>
  A process id below \<open>2^28\<close> prints as fewer than 8 hexadecimal digits, and then a disk
  attachment with both ids panics at line 263, before the manifest is built.
\<close>

lemma fmt_hex_length: "n < 16 ^ k \<Longrightarrow> 0 < k \<Longrightarrow> length (fmt_hex n) \<le> k"
proof (induction n arbitrary: k rule: fmt_hex.induct)
  case (1 n)
  show ?case
  proof (cases "n < 16")
    case True
    with 1(3) show ?thesis by (simp add: fmt_hex.simps)
  next
    case False
    then obtain j where k: "k = Suc j" using 1(3) by (cases k) auto
    from False 1(2) k have "0 < j" by (cases j) auto
    moreover from 1(2) k have "n div 16 < 16 ^ j"
      by (simp add: less_mult_imp_div_less mult.commute)
    ultimately have "length (fmt_hex (n div 16)) \<le> j"
      using 1(1) [OF False] by blast
    with False k show ?thesis
      by (subst fmt_hex.simps) simp
  qed
qed

lemma attachDisk_panics:
  assumes "att_VolumeID d \<noteq> []" "att_InstanceID d \<noteq> []" "os_Getpid E < 2 ^ 28"
  shows "attachDisk E teamName vmName (Inr d) w = (Panic ''slice bounds out of range'', w)"
proof -
  have "os_Getpid E < 16 ^ 7" using assms(3) by simp
  then have "length (fmt_hex (os_Getpid E)) \<le> 7"
    by (rule fmt_hex_length) simp
  then show ?thesis
    using assms(1,2) by (simp add: attachDisk_def Let_def)
qed


end
